theory Spec2Isabelle
  imports Main "HOL-Library.Sublist"
begin

section \<open>Python values\<close>

text \<open>
  The values that reach the client: the parsed JSON body of a gateway response, the
  \<open>amount\<close> of the client (\<open>Union[str, int]\<close>) and the values of the keyword
  arguments of \<open>purchase\<close>. A \<open>dict\<close> keeps its insertion order, so it is an
  association list; a \<open>char\<close> stands for a code point below 256. Floating point
  numbers are outside the embedding.
\<close>

datatype pyval =
    PNone
  | PBool bool
  | PInt int
  | PStr string
  | PList "pyval list"
  | PDict "(string \<times> pyval) list"

text \<open>
  The exceptions the three operations can raise. The classes of the module
  \<open>exceptions\<close> take the message as their argument; \<open>KeyError\<close> and
  \<open>TypeError\<close> are the builtins raised by \<open>result['code']\<close> and
  \<open>result['trans_id']\<close>; \<open>TransportError\<close> is any fault raised inside
  \<open>aiohttp\<close> (connection failure, a body that is not JSON).
\<close>

datatype error =
    InvalidKey string
  | InvalidCallbackUri string
  | InvalidToken string
  | UnknownHandled string
  | PurchaseDeclined string
  | PurchaseCanceled string
  | InvalidPrice string
  | PurchaseAlreadyMade string
  | InvalidTransId string
  | RefundFailed string
  | NotEnoughBalance string
  | KeyError string
  | TypeError
  | TransportError

subsection \<open>Subscription, equality and formatting\<close>

text \<open>\<open>result[key]\<close> for a string key: only a dict can be subscripted by a string.\<close>

definition subscript :: "pyval \<Rightarrow> string \<Rightarrow> error + pyval" where
  "subscript v key =
     (case v of
        PDict kvs \<Rightarrow> (case map_of kvs key of None \<Rightarrow> Inl (KeyError key) | Some x \<Rightarrow> Inr x)
      | _ \<Rightarrow> Inl TypeError)"

text \<open>\<open>v == k\<close> for an integer literal \<open>k\<close>: \<open>bool\<close> is a subclass of \<open>int\<close>.\<close>

fun py_eq_int :: "pyval \<Rightarrow> int \<Rightarrow> bool" where
  "py_eq_int (PInt n) k = (n = k)"
| "py_eq_int (PBool b) k = ((if b then 1 else 0) = k)"
| "py_eq_int _ k = False"

text \<open>\<open>v in [k1, k2, ...]\<close> for a list of integer literals.\<close>

definition py_in_ints :: "pyval \<Rightarrow> int list \<Rightarrow> bool" where
  "py_in_ints v ks = list_ex (py_eq_int v) ks"

text \<open>\<open>v in [s1, s2, ...]\<close> for a list of string literals.\<close>

definition py_in_strs :: "pyval \<Rightarrow> string list \<Rightarrow> bool" where
  "py_in_strs v ss = list_ex (\<lambda>s. v = PStr s) ss"

definition digit_char :: "nat \<Rightarrow> char" where
  "digit_char d = ''0123456789abcdef'' ! d"

fun str_nat :: "nat \<Rightarrow> string" where
  "str_nat n = (if n < 10 then [digit_char n] else str_nat (n div 10) @ [digit_char (n mod 10)])"

declare str_nat.simps [simp del]

text \<open>\<open>str(i)\<close> for an integer.\<close>

definition str_int :: "int \<Rightarrow> string" where
  "str_int i = (if i < 0 then CHR ''-'' # str_nat (nat (- i)) else str_nat (nat i))"

text \<open>\<open>repr(s)\<close> for a string: the quote is chosen by the content, and the quote, the
  backslash and the characters that are not printable are escaped.\<close>

definition py_printable :: "char \<Rightarrow> bool" where
  "py_printable c =
     (let n = (of_char c :: nat)
      in 32 \<le> n \<and> n \<noteq> 127 \<and> \<not> (128 \<le> n \<and> n \<le> 160) \<and> n \<noteq> 173)"

definition repr_char :: "char \<Rightarrow> char \<Rightarrow> string" where
  "repr_char quote c =
     (if c = quote \<or> c = CHR 0x5C then [CHR 0x5C, c]
      else if c = CHR 0x09 then [CHR 0x5C, CHR ''t'']
      else if c = CHR 0x0A then [CHR 0x5C, CHR ''n'']
      else if c = CHR 0x0D then [CHR 0x5C, CHR ''r'']
      else if py_printable c then [c]
      else [CHR 0x5C, CHR ''x'', digit_char (of_char c div 16), digit_char (of_char c mod 16)])"

definition repr_str :: "string \<Rightarrow> string" where
  "repr_str s =
     (let quote = (if CHR 0x27 \<in> set s \<and> CHR 0x22 \<notin> set s then CHR 0x22 else CHR 0x27)
      in [quote] @ concat (map (repr_char quote) s) @ [quote])"

text \<open>\<open>', '.join(xs)\<close>\<close>

fun join_comma :: "string list \<Rightarrow> string" where
  "join_comma [] = []"
| "join_comma [x] = x"
| "join_comma (x # y # ys) = x @ '', '' @ join_comma (y # ys)"

primrec py_repr :: "pyval \<Rightarrow> string" where
  "py_repr PNone = ''None''"
| "py_repr (PBool b) = (if b then ''True'' else ''False'')"
| "py_repr (PInt n) = str_int n"
| "py_repr (PStr s) = repr_str s"
| "py_repr (PList xs) = ''['' @ join_comma (map py_repr xs) @ '']''"
| "py_repr (PDict kvs) =
     ''{'' @ join_comma (map (\<lambda>kv. repr_str (fst kv) @ '': '' @ snd kv) (map (map_prod id py_repr) kvs)) @ ''}''"

text \<open>\<open>f"{v}"\<close>, that is \<open>str(v)\<close>: a string is itself, everything else is its \<open>repr\<close>.\<close>

definition py_str :: "pyval \<Rightarrow> string" where
  "py_str v = (case v of PStr s \<Rightarrow> s | _ \<Rightarrow> py_repr v)"

section \<open>The client\<close>

text \<open>\<open>NextPay.__init__\<close>: the three attributes of the instance.\<close>

record NextPay =
  token :: string
  amount :: pyval
  callback_uri :: string

definition NextPay_init :: "string \<Rightarrow> pyval \<Rightarrow> string \<Rightarrow> NextPay" where
  "NextPay_init token' amount' callback_uri' =
     \<lparr>token = token', amount = amount', callback_uri = callback_uri'\<rparr>"

text \<open>The class attribute \<open>headers\<close>.\<close>

definition headers :: "(string \<times> string) list" where
  "headers =
     [(''User-Agent'', ''PostmanRuntime/7.26.8''),
      (''Content-Type'', ''application/x-www-form-urlencoded'')]"

subsection \<open>Requests and the gateway\<close>

text \<open>
  A \<open>FormData\<close> is the list of its fields in the order of the \<open>add_field\<close> calls;
  \<open>aiohttp\<close> encodes the body from that list. A request is what
  \<open>ClientSession(headers=...).post(url=..., data=...)\<close> sends. The remote gateway
  answers a request with the parsed JSON body, or with nothing when the transport fails
  (the call then raises \<open>TransportError\<close>), and the world is the list of the
  requests posted so far.
\<close>

type_synonym form_data = "(string \<times> pyval) list"

definition add_field :: "form_data \<Rightarrow> string \<Rightarrow> pyval \<Rightarrow> form_data" where
  "add_field form name v = form @ [(name, v)]"

record request =
  url :: string
  req_headers :: "(string \<times> string) list"
  data :: form_data

type_synonym gateway = "request \<Rightarrow> pyval option"

type_synonym world = "request list"

definition post_request :: "string \<Rightarrow> form_data \<Rightarrow> request" where
  "post_request url' data' = \<lparr>url = url', req_headers = headers, data = data'\<rparr>"

definition post :: "gateway \<Rightarrow> string \<Rightarrow> form_data \<Rightarrow> world \<Rightarrow> pyval option \<times> world" where
  "post gw url' data' w = (let req = post_request url' data' in (gw req, w @ [req]))"

text \<open>
  An operation returns its result (the value returned or the exception raised), the
  instance after the call and the world after the call.
\<close>

type_synonym 'a outcome = "(error + 'a) \<times> NextPay \<times> world"

subsection \<open>\<open>purchase\<close>\<close>

definition purchase_url :: string where
  "purchase_url = ''https://nextpay.org/nx/gateway/token''"

definition allowed_keys :: "string list" where
  "allowed_keys =
     [''currency'', ''phone'', ''custom_json_fields'', ''payer_name'', ''payer_desc'',
      ''auto_verify'', ''allowed_card'']"

text \<open>
  The loop over \<open>kwargs.items()\<close>: \<open>kwargs\<close> holds the keyword arguments that are
  not parameters of \<open>purchase\<close>, in the order of the call.
\<close>

fun add_kwargs :: "(string \<times> pyval) list \<Rightarrow> form_data \<Rightarrow> error + form_data" where
  "add_kwargs [] data' = Inr data'"
| "add_kwargs ((key, v) # kwargs) data' =
     (if key \<in> set allowed_keys then add_kwargs kwargs (add_field data' key v)
      else Inl (InvalidKey (''key '' @ key @ '' is invalid for NextPay.org'')))"

text \<open>The form data of \<open>purchase\<close>, or the exception of the loop.\<close>

definition purchase_data :: "NextPay \<Rightarrow> string \<Rightarrow> (string \<times> pyval) list \<Rightarrow> error + form_data" where
  "purchase_data self order_id kwargs =
     (let data0 = [];
          data1 = add_field data0 ''api_key'' (PStr (token self));
          data2 = add_field data1 ''amount'' (amount self);
          data3 = add_field data2 ''order_id'' (PStr order_id)
      in case add_kwargs kwargs data3 of
           Inl e \<Rightarrow> Inl e
         | Inr data4 \<Rightarrow> Inr (add_field data4 ''callback_uri'' (PStr (callback_uri self))))"

text \<open>The dispatch on \<open>result['code']\<close> of \<open>purchase\<close>.\<close>

definition purchase_classify :: "NextPay \<Rightarrow> pyval \<Rightarrow> error + pyval" where
  "purchase_classify self result =
     (case subscript result ''code'' of
        Inl e \<Rightarrow> Inl e
      | Inr code \<Rightarrow>
          if py_eq_int code (- 1) then subscript result ''trans_id''
          else if py_eq_int code (- 32) then Inl (InvalidCallbackUri ''callback_uri is invalid'')
          else if py_eq_int code (- 73) then
            Inl (InvalidCallbackUri ''callback_uri has a server error or its too long'')
          else if py_in_ints code [- 33, - 35, - 38, - 39, - 40, - 47] then
            Inl (InvalidToken (''Token '' @ token self @ '' is invalid. error code : '' @ py_str code))
          else Inl (UnknownHandled (''Un-handled error code : '' @ py_str code)))"

definition purchase :: "gateway \<Rightarrow> NextPay \<Rightarrow> string \<Rightarrow> (string \<times> pyval) list \<Rightarrow> world \<Rightarrow> pyval outcome" where
  "purchase gw self order_id kwargs w =
     (case purchase_data self order_id kwargs of
        Inl e \<Rightarrow> (Inl e, self, w)
      | Inr data' \<Rightarrow>
          (case post gw purchase_url data' w of
             (None, w') \<Rightarrow> (Inl TransportError, self, w')
           | (Some result, w') \<Rightarrow> (purchase_classify self result, self, w')))"

subsection \<open>\<open>verify\<close>\<close>

definition verify_url :: string where
  "verify_url = ''https://nextpay.org/nx/gateway/verify''"

definition verify_data :: "NextPay \<Rightarrow> string \<Rightarrow> pyval \<Rightarrow> form_data" where
  "verify_data self trans_id currency =
     (let data0 = [];
          data1 = add_field data0 ''api_key'' (PStr (token self));
          data2 = add_field data1 ''amount'' (amount self);
          data3 = add_field data2 ''trans_id'' (PStr trans_id)
      in if py_in_strs currency [''IRT'', ''IRR''] then add_field data3 ''currency'' currency
         else data3)"

definition verify_classify :: "pyval \<Rightarrow> error + bool" where
  "verify_classify result =
     (case subscript result ''code'' of
        Inl e \<Rightarrow> Inl e
      | Inr code \<Rightarrow>
          if py_eq_int code 0 then Inr True
          else if py_eq_int code (- 2) then Inl (PurchaseDeclined ''Purchase declined by user or bank'')
          else if py_eq_int code (- 4) then Inl (PurchaseCanceled ''Purchase canceled'')
          else if py_eq_int code (- 24) then Inl (InvalidPrice ''Entered price is invalid'')
          else if py_eq_int code (- 25) then
            Inl (PurchaseAlreadyMade ''Purchase is already finished and paid'')
          else if py_eq_int code (- 27) then Inl (InvalidTransId ''trans_id is invalid'')
          else Inl (UnknownHandled (''Un-handled error code : '' @ py_str code)))"

definition verify :: "gateway \<Rightarrow> NextPay \<Rightarrow> string \<Rightarrow> pyval \<Rightarrow> world \<Rightarrow> bool outcome" where
  "verify gw self trans_id currency w =
     (case post gw verify_url (verify_data self trans_id currency) w of
        (None, w') \<Rightarrow> (Inl TransportError, self, w')
      | (Some result, w') \<Rightarrow> (verify_classify result, self, w'))"

subsection \<open>\<open>refund\<close>\<close>

definition refund_url :: string where
  "refund_url = ''https://nextpay.org/nx/gateway/verify''"

definition refund_data :: "NextPay \<Rightarrow> string \<Rightarrow> form_data" where
  "refund_data self trans_id =
     (let data0 = [];
          data1 = add_field data0 ''api_key'' (PStr (token self));
          data2 = add_field data1 ''amount'' (amount self);
          data3 = add_field data2 ''trans_id'' (PStr trans_id)
      in add_field data3 ''refund_request'' (PStr ''yes_money_back''))"

definition refund_classify :: "pyval \<Rightarrow> error + bool" where
  "refund_classify result =
     (case subscript result ''code'' of
        Inl e \<Rightarrow> Inl e
      | Inr code \<Rightarrow>
          if py_eq_int code (- 90) then Inr True
          else if py_in_ints code [- 91, - 92] then Inl (RefundFailed ''Refund failed'')
          else if py_eq_int code (- 93) then Inl (NotEnoughBalance ''Not enough balance to refund'')
          else if py_eq_int code (- 27) then Inl (InvalidTransId ''trans_id is invalid'')
          else Inl (UnknownHandled (''Un-handled error code : '' @ py_str code)))"

definition refund :: "gateway \<Rightarrow> NextPay \<Rightarrow> string \<Rightarrow> world \<Rightarrow> bool outcome" where
  "refund gw self trans_id w =
     (case post gw refund_url (refund_data self trans_id) w of
        (None, w') \<Rightarrow> (Inl TransportError, self, w')
      | (Some result, w') \<Rightarrow> (refund_classify result, self, w'))"

section \<open>Auxiliary facts\<close>

lemma add_kwargs_allowed:
  "fst ` set kwargs \<subseteq> set allowed_keys \<Longrightarrow> add_kwargs kwargs d = Inr (d @ kwargs)"
  by (induction kwargs arbitrary: d) (auto simp: add_field_def)

lemma add_kwargs_invalid:
  "\<not> fst ` set kwargs \<subseteq> set allowed_keys \<Longrightarrow>
   \<exists>key. key \<in> fst ` set kwargs \<and> key \<notin> set allowed_keys \<and>
     add_kwargs kwargs d = Inl (InvalidKey (''key '' @ key @ '' is invalid for NextPay.org''))"
proof (induction kwargs arbitrary: d)
  case Nil
  then show ?case by simp
next
  case (Cons kv kwargs)
  obtain key v where kv: "kv = (key, v)" by (cases kv)
  show ?case
  proof (cases "key \<in> set allowed_keys")
    case True
    with Cons.prems kv have "\<not> fst ` set kwargs \<subseteq> set allowed_keys" by auto
    from Cons.IH [OF this, of "add_field d key v"] True kv show ?thesis by auto
  next
    case False
    with kv show ?thesis by auto
  qed
qed

lemma purchase_data_allowed:
  "fst ` set kwargs \<subseteq> set allowed_keys \<Longrightarrow>
   purchase_data self order_id kwargs =
     Inr ([(''api_key'', PStr (token self)), (''amount'', amount self),
           (''order_id'', PStr order_id)] @ kwargs @
          [(''callback_uri'', PStr (callback_uri self))])"
  by (simp add: purchase_data_def add_kwargs_allowed add_field_def)

lemma purchase_data_invalid:
  assumes "\<not> fst ` set kwargs \<subseteq> set allowed_keys"
  shows "\<exists>key. key \<in> fst ` set kwargs \<and> key \<notin> set allowed_keys \<and>
     purchase_data self order_id kwargs =
       Inl (InvalidKey (''key '' @ key @ '' is invalid for NextPay.org''))"
proof -
  let ?d = "add_field (add_field (add_field [] ''api_key'' (PStr (token self))) ''amount'' (amount self))
              ''order_id'' (PStr order_id)"
  from add_kwargs_invalid [OF assms, of ?d]
  obtain key where k: "key \<in> fst ` set kwargs" "key \<notin> set allowed_keys"
    and a: "add_kwargs kwargs ?d = Inl (InvalidKey (''key '' @ key @ '' is invalid for NextPay.org''))"
    by blast
  have "purchase_data self order_id kwargs =
       Inl (InvalidKey (''key '' @ key @ '' is invalid for NextPay.org''))"
    unfolding purchase_data_def Let_def by (simp only: a sum.case)
  with k show ?thesis by blast
qed

lemma purchase_sent:
  "purchase_data self order_id kwargs = Inr d \<Longrightarrow> gw (post_request purchase_url d) = Some result \<Longrightarrow>
   purchase gw self order_id kwargs w =
     (purchase_classify self result, self, w @ [post_request purchase_url d])"
  by (simp add: purchase_def post_def)

lemma purchase_world:
  "purchase_data self order_id kwargs = Inr d \<Longrightarrow>
   snd (snd (purchase gw self order_id kwargs w)) = w @ [post_request purchase_url d]"
  by (cases "gw (post_request purchase_url d)") (simp_all add: purchase_def post_def Let_def)

lemma verify_sent:
  "gw (post_request verify_url (verify_data self trans_id currency)) = Some result \<Longrightarrow>
   verify gw self trans_id currency w =
     (verify_classify result, self, w @ [post_request verify_url (verify_data self trans_id currency)])"
  by (simp add: verify_def post_def)

lemma verify_world:
  "snd (snd (verify gw self trans_id currency w)) =
     w @ [post_request verify_url (verify_data self trans_id currency)]"
  by (cases "gw (post_request verify_url (verify_data self trans_id currency))")
    (simp_all add: verify_def post_def Let_def)

lemma refund_sent:
  "gw (post_request refund_url (refund_data self trans_id)) = Some result \<Longrightarrow>
   refund gw self trans_id w =
     (refund_classify result, self, w @ [post_request refund_url (refund_data self trans_id)])"
  by (simp add: refund_def post_def)

lemma refund_world:
  "snd (snd (refund gw self trans_id w)) = w @ [post_request refund_url (refund_data self trans_id)]"
  by (cases "gw (post_request refund_url (refund_data self trans_id))")
    (simp_all add: refund_def post_def Let_def)

lemma set_allowed_keys:
  "set allowed_keys =
     {''currency'', ''phone'', ''custom_json_fields'', ''payer_name'', ''payer_desc'',
      ''auto_verify'', ''allowed_card''}"
  by (simp add: allowed_keys_def)

lemma purchase_not_sent:
  "purchase_data self order_id kwargs = Inl e \<Longrightarrow>
   purchase gw self order_id kwargs w = (Inl e, self, w)"
  by (simp add: purchase_def)

lemma purchase_result:
  "purchase_data self order_id kwargs = Inr d \<Longrightarrow>
   fst (purchase gw self order_id kwargs w) =
     (case gw (post_request purchase_url d) of
        None \<Rightarrow> Inl TransportError
      | Some result \<Rightarrow> purchase_classify self result)"
  by (cases "gw (post_request purchase_url d)") (simp_all add: purchase_def post_def Let_def)

lemma verify_result:
  "fst (verify gw self trans_id currency w) =
     (case gw (post_request verify_url (verify_data self trans_id currency)) of
        None \<Rightarrow> Inl TransportError
      | Some result \<Rightarrow> verify_classify result)"
  by (cases "gw (post_request verify_url (verify_data self trans_id currency))")
    (simp_all add: verify_def post_def Let_def)

lemma refund_result:
  "fst (refund gw self trans_id w) =
     (case gw (post_request refund_url (refund_data self trans_id)) of
        None \<Rightarrow> Inl TransportError
      | Some result \<Rightarrow> refund_classify result)"
  by (cases "gw (post_request refund_url (refund_data self trans_id))")
    (simp_all add: refund_def post_def Let_def)

lemma sublist_suffix: "sublist s (p @ s)"
  using sublist_appendI [of s p "[]"] by simp

lemma purchase_classify_success:
  "purchase_classify self result = Inr v \<Longrightarrow>
   \<exists>code. subscript result ''code'' = Inr code \<and> py_eq_int code (- 1)"
  by (cases "subscript result ''code''") (auto simp: purchase_classify_def split: if_splits)

lemma verify_classify_success:
  "verify_classify result = Inr v \<Longrightarrow>
   \<exists>code. subscript result ''code'' = Inr code \<and> py_eq_int code 0"
  by (cases "subscript result ''code''") (auto simp: verify_classify_def split: if_splits)

lemma refund_classify_success:
  "refund_classify result = Inr v \<Longrightarrow>
   \<exists>code. subscript result ''code'' = Inr code \<and> py_eq_int code (- 90)"
  by (cases "subscript result ''code''") (auto simp: refund_classify_def split: if_splits)

lemma purchase_classify_unlisted:
  "subscript result ''code'' = Inr (PInt c) \<Longrightarrow>
   c \<notin> {- 1, - 32, - 73, - 33, - 35, - 38, - 39, - 40, - 47} \<Longrightarrow>
   purchase_classify self result = Inl (UnknownHandled (''Un-handled error code : '' @ str_int c))"
  by (simp add: purchase_classify_def py_in_ints_def py_str_def)

lemma verify_classify_unlisted:
  "subscript result ''code'' = Inr (PInt c) \<Longrightarrow> c \<notin> {0, - 2, - 4, - 24, - 25, - 27} \<Longrightarrow>
   verify_classify result = Inl (UnknownHandled (''Un-handled error code : '' @ str_int c))"
  by (simp add: verify_classify_def py_str_def)

lemma refund_classify_unlisted:
  "subscript result ''code'' = Inr (PInt c) \<Longrightarrow> c \<notin> {- 90, - 91, - 92, - 93, - 27} \<Longrightarrow>
   refund_classify result = Inl (UnknownHandled (''Un-handled error code : '' @ str_int c))"
  by (simp add: refund_classify_def py_in_ints_def py_str_def)

lemma verify_data_currency:
  "currency = PStr ''IRT'' \<or> currency = PStr ''IRR'' \<Longrightarrow>
   verify_data self trans_id currency =
     [(''api_key'', PStr (token self)), (''amount'', amount self), (''trans_id'', PStr trans_id),
      (''currency'', currency)]"
  by (auto simp: verify_data_def py_in_strs_def add_field_def)

lemma verify_data_no_currency:
  "currency \<noteq> PStr ''IRT'' \<Longrightarrow> currency \<noteq> PStr ''IRR'' \<Longrightarrow>
   verify_data self trans_id currency =
     [(''api_key'', PStr (token self)), (''amount'', amount self), (''trans_id'', PStr trans_id)]"
  by (simp add: verify_data_def py_in_strs_def add_field_def)

lemma refund_data_fields:
  "refund_data self trans_id =
     [(''api_key'', PStr (token self)), (''amount'', amount self), (''trans_id'', PStr trans_id),
      (''refund_request'', PStr ''yes_money_back'')]"
  by (simp add: refund_data_def add_field_def)

lemma purchase_classify_cong:
  assumes "subscript r1 ''code'' = subscript r2 ''code''"
    and "\<forall>code. subscript r1 ''code'' = Inr code \<and> py_eq_int code (- 1) \<longrightarrow>
           subscript r1 ''trans_id'' = subscript r2 ''trans_id''"
  shows "purchase_classify self r1 = purchase_classify self r2"
proof (cases "subscript r1 ''code''")
  case (Inl e)
  moreover from Inl assms(1) have "subscript r2 ''code'' = Inl e" by simp
  ultimately show ?thesis by (simp add: purchase_classify_def)
next
  case (Inr code)
  from Inr assms(1) have r2: "subscript r2 ''code'' = Inr code" by simp
  show ?thesis
  proof (cases "py_eq_int code (- 1)")
    case True
    with Inr assms(2) have "subscript r1 ''trans_id'' = subscript r2 ''trans_id''" by blast
    with Inr r2 True show ?thesis by (simp add: purchase_classify_def)
  next
    case False
    with Inr r2 show ?thesis by (simp add: purchase_classify_def)
  qed
qed

lemma subscript_not_InvalidKey: "subscript r k \<noteq> Inl (InvalidKey msg)"
  by (simp add: subscript_def split: pyval.splits option.splits)

lemma purchase_classify_not_InvalidKey: "purchase_classify self r \<noteq> Inl (InvalidKey msg)"
  using subscript_not_InvalidKey [of r "''code''" msg]
  by (cases "subscript r ''code''")
    (simp_all add: purchase_classify_def subscript_not_InvalidKey)

lemma verify_classify_not_InvalidKey: "verify_classify r \<noteq> Inl (InvalidKey msg)"
  using subscript_not_InvalidKey [of r "''code''" msg]
  by (cases "subscript r ''code''")
    (simp_all add: verify_classify_def subscript_not_InvalidKey)

lemma refund_classify_not_InvalidKey: "refund_classify r \<noteq> Inl (InvalidKey msg)"
  using subscript_not_InvalidKey [of r "''code''" msg]
  by (cases "subscript r ''code''")
    (simp_all add: refund_classify_def subscript_not_InvalidKey)

lemma verify_classify_cong:
  "subscript r1 ''code'' = subscript r2 ''code'' \<Longrightarrow> verify_classify r1 = verify_classify r2"
  by (simp add: verify_classify_def)

lemma refund_classify_cong:
  "subscript r1 ''code'' = subscript r2 ''code'' \<Longrightarrow> refund_classify r1 = refund_classify r2"
  by (simp add: refund_classify_def)

text \<open>The definitions that evaluate a call on concrete arguments.\<close>

lemmas run_defs =
  purchase_def purchase_data_def purchase_classify_def purchase_url_def
  verify_def verify_data_def verify_classify_def verify_url_def
  refund_def refund_data_def refund_classify_def refund_url_def
  add_field_def post_def post_request_def headers_def allowed_keys_def NextPay_init_def
  subscript_def py_in_ints_def py_in_strs_def py_str_def str_int_def str_nat.simps
  digit_char_def Let_def

section \<open>The response tables\<close>

text \<open>
  C1. For every gateway response to \<open>purchase\<close> that carries a \<open>code\<close>: when the code
  equals -1 the call returns the \<open>trans_id\<close> field of the response; when it equals -32
  or -73 the call fails with \<open>InvalidCallbackUri\<close>; when it is one of -33, -35, -38,
  -39, -40, -47 the call fails with \<open>InvalidToken\<close> and the message contains the token
  of the client and the code; for every other code the call fails with
  \<open>UnknownHandled\<close> and the message contains the code.
\<close>

theorem purchase_code_table:
  assumes "purchase_data self order_id kwargs = Inr d"
    and "gw (post_request purchase_url d) = Some result"
    and "subscript result ''code'' = Inr code"
  shows
    "(py_eq_int code (- 1) \<longrightarrow>
        (\<forall>t. subscript result ''trans_id'' = Inr t \<longrightarrow>
           fst (purchase gw self order_id kwargs w) = Inr t)) \<and>
     (py_eq_int code (- 32) \<or> py_eq_int code (- 73) \<longrightarrow>
        (\<exists>msg. fst (purchase gw self order_id kwargs w) = Inl (InvalidCallbackUri msg))) \<and>
     (py_in_ints code [- 33, - 35, - 38, - 39, - 40, - 47] \<longrightarrow>
        (\<exists>msg. fst (purchase gw self order_id kwargs w) = Inl (InvalidToken msg) \<and>
           sublist (token self) msg \<and> sublist (py_str code) msg)) \<and>
     (\<not> py_in_ints code [- 1, - 32, - 73, - 33, - 35, - 38, - 39, - 40, - 47] \<longrightarrow>
        (\<exists>msg. fst (purchase gw self order_id kwargs w) = Inl (UnknownHandled msg) \<and>
           sublist (py_str code) msg))"
proof -
  have sent: "fst (purchase gw self order_id kwargs w) = purchase_classify self result"
    using assms(1,2) by (simp add: purchase_sent)
  have c1: "py_eq_int code (- 1) \<longrightarrow>
        (\<forall>t. subscript result ''trans_id'' = Inr t \<longrightarrow> purchase_classify self result = Inr t)"
    using assms(3) by (simp add: purchase_classify_def)
  have c2: "py_eq_int code (- 32) \<or> py_eq_int code (- 73) \<longrightarrow>
      (\<exists>msg. purchase_classify self result = Inl (InvalidCallbackUri msg))"
    using assms(3) by (cases code) (auto simp: purchase_classify_def split: if_splits)
  have s1: "sublist (token self) (''Token '' @ token self @ '' is invalid. error code : '' @ py_str code)"
    by (rule sublist_appendI)
  have s2: "sublist (py_str code) (''Token '' @ token self @ '' is invalid. error code : '' @ py_str code)"
    using sublist_appendI [of "py_str code" "''Token '' @ token self @ '' is invalid. error code : ''" "[]"]
    by simp
  have s3: "sublist (py_str code) (''Un-handled error code : '' @ py_str code)"
    using sublist_appendI [of "py_str code" "''Un-handled error code : ''" "[]"] by simp
  have e3: "py_in_ints code [- 33, - 35, - 38, - 39, - 40, - 47] \<Longrightarrow>
      purchase_classify self result =
        Inl (InvalidToken (''Token '' @ token self @ '' is invalid. error code : '' @ py_str code))"
    using assms(3) by (cases code) (auto simp: purchase_classify_def py_in_ints_def split: if_splits)
  have c3: "py_in_ints code [- 33, - 35, - 38, - 39, - 40, - 47] \<longrightarrow>
        (\<exists>msg. purchase_classify self result = Inl (InvalidToken msg) \<and>
           sublist (token self) msg \<and> sublist (py_str code) msg)"
    using e3 s1 s2 by blast
  have e4: "\<not> py_in_ints code [- 1, - 32, - 73, - 33, - 35, - 38, - 39, - 40, - 47] \<Longrightarrow>
      purchase_classify self result = Inl (UnknownHandled (''Un-handled error code : '' @ py_str code))"
    using assms(3) by (simp add: purchase_classify_def py_in_ints_def)
  have c4: "\<not> py_in_ints code [- 1, - 32, - 73, - 33, - 35, - 38, - 39, - 40, - 47] \<longrightarrow>
        (\<exists>msg. purchase_classify self result = Inl (UnknownHandled msg) \<and> sublist (py_str code) msg)"
    using e4 s3 by blast
  show ?thesis
    unfolding sent using c1 c2 c3 c4 by (intro conjI)
qed

text \<open>The table at the codes -1, -32, -39 and 7.\<close>

theorem purchase_code_table_witness:
  "fst (purchase (\<lambda>_. Some (PDict [(''code'', PInt (- 1)), (''trans_id'', PStr ''abc123'')]))
          (NextPay_init ''tok'' (PInt 1000) ''http://cb'') ''o1'' [] []) = Inr (PStr ''abc123'') \<and>
   (\<exists>msg. fst (purchase (\<lambda>_. Some (PDict [(''code'', PInt (- 32))]))
          (NextPay_init ''tok'' (PInt 1000) ''http://cb'') ''o1'' [] []) = Inl (InvalidCallbackUri msg)) \<and>
   (\<exists>msg. fst (purchase (\<lambda>_. Some (PDict [(''code'', PInt (- 39))]))
          (NextPay_init ''tok'' (PInt 1000) ''http://cb'') ''o1'' [] []) = Inl (InvalidToken msg) \<and>
       sublist ''tok'' msg \<and> sublist ''-39'' msg) \<and>
   (\<exists>msg. fst (purchase (\<lambda>_. Some (PDict [(''code'', PInt 7)]))
          (NextPay_init ''tok'' (PInt 1000) ''http://cb'') ''o1'' [] []) = Inl (UnknownHandled msg) \<and>
       sublist ''7'' msg)"
proof -
  let ?c = "NextPay_init ''tok'' (PInt 1000) ''http://cb''"
  let ?d = "[(''api_key'', PStr ''tok''), (''amount'', PInt 1000), (''order_id'', PStr ''o1''),
             (''callback_uri'', PStr ''http://cb'')]"
  have pd: "purchase_data ?c ''o1'' [] = Inr ?d"
    by (simp add: purchase_data_def add_field_def NextPay_init_def)
  have tok: "token ?c = ''tok''"
    by (simp add: NextPay_init_def)
  have s39: "py_str (PInt (- 39)) = ''-39''" and s7: "py_str (PInt 7) = ''7''"
    by (simp_all add: py_str_def str_int_def str_nat.simps digit_char_def)
  let ?r1 = "PDict [(''code'', PInt (- 1)), (''trans_id'', PStr ''abc123'')]"
  let ?r2 = "PDict [(''code'', PInt (- 32))]"
  let ?r3 = "PDict [(''code'', PInt (- 39))]"
  let ?r4 = "PDict [(''code'', PInt 7)]"
  have a: "fst (purchase (\<lambda>_. Some ?r1) ?c ''o1'' [] []) = Inr (PStr ''abc123'')"
    using purchase_code_table [OF pd, where gw = "\<lambda>_. Some ?r1" and result = ?r1
        and code = "PInt (- 1)" and w = "[]"]
    by (simp add: subscript_def)
  have b: "\<exists>msg. fst (purchase (\<lambda>_. Some ?r2) ?c ''o1'' [] []) = Inl (InvalidCallbackUri msg)"
    using purchase_code_table [OF pd, where gw = "\<lambda>_. Some ?r2" and result = ?r2
        and code = "PInt (- 32)" and w = "[]"]
    by (simp add: subscript_def)
  have c: "\<exists>msg. fst (purchase (\<lambda>_. Some ?r3) ?c ''o1'' [] []) = Inl (InvalidToken msg) \<and>
       sublist ''tok'' msg \<and> sublist ''-39'' msg"
    using purchase_code_table [OF pd, where gw = "\<lambda>_. Some ?r3" and result = ?r3
        and code = "PInt (- 39)" and w = "[]"]
    by (simp add: subscript_def py_in_ints_def tok s39)
  have d: "\<exists>msg. fst (purchase (\<lambda>_. Some ?r4) ?c ''o1'' [] []) = Inl (UnknownHandled msg) \<and>
       sublist ''7'' msg"
    using purchase_code_table [OF pd, where gw = "\<lambda>_. Some ?r4" and result = ?r4
        and code = "PInt 7" and w = "[]"]
    by (simp add: subscript_def py_in_ints_def s7)
  from a b c d show ?thesis by (intro conjI)
qed


text \<open>
  C3. For every gateway response to \<open>verify\<close> that carries a \<open>code\<close>: when the code
  equals 0 the call returns \<open>True\<close>; -2 fails with \<open>PurchaseDeclined\<close>, -4 with
  \<open>PurchaseCanceled\<close>, -24 with \<open>InvalidPrice\<close>, -25 with
  \<open>PurchaseAlreadyMade\<close>, -27 with \<open>InvalidTransId\<close>; every other code fails with
  \<open>UnknownHandled\<close>.
\<close>

theorem verify_code_table:
  assumes "gw (post_request verify_url (verify_data self trans_id currency)) = Some result"
    and "subscript result ''code'' = Inr code"
  shows
    "(py_eq_int code 0 \<longrightarrow> fst (verify gw self trans_id currency w) = Inr True) \<and>
     (py_eq_int code (- 2) \<longrightarrow>
        (\<exists>msg. fst (verify gw self trans_id currency w) = Inl (PurchaseDeclined msg))) \<and>
     (py_eq_int code (- 4) \<longrightarrow>
        (\<exists>msg. fst (verify gw self trans_id currency w) = Inl (PurchaseCanceled msg))) \<and>
     (py_eq_int code (- 24) \<longrightarrow>
        (\<exists>msg. fst (verify gw self trans_id currency w) = Inl (InvalidPrice msg))) \<and>
     (py_eq_int code (- 25) \<longrightarrow>
        (\<exists>msg. fst (verify gw self trans_id currency w) = Inl (PurchaseAlreadyMade msg))) \<and>
     (py_eq_int code (- 27) \<longrightarrow>
        (\<exists>msg. fst (verify gw self trans_id currency w) = Inl (InvalidTransId msg))) \<and>
     (\<not> py_in_ints code [0, - 2, - 4, - 24, - 25, - 27] \<longrightarrow>
        (\<exists>msg. fst (verify gw self trans_id currency w) = Inl (UnknownHandled msg)))"
proof -
  have sent: "fst (verify gw self trans_id currency w) = verify_classify result"
    using assms(1) by (simp add: verify_sent)
  show ?thesis
    unfolding sent using assms(2)
    by (cases code) (auto simp: verify_classify_def py_in_ints_def split: if_splits)
qed

text \<open>The table at the codes 0, -2, -4, -24, -25, -27 and -90.\<close>

theorem verify_code_table_witness:
  "fst (verify (\<lambda>_. Some (PDict [(''code'', PInt 0)]))
          (NextPay_init ''tok'' (PInt 1000) ''http://cb'') ''abc123'' PNone []) = Inr True \<and>
   (\<exists>msg. fst (verify (\<lambda>_. Some (PDict [(''code'', PInt (- 2))]))
          (NextPay_init ''tok'' (PInt 1000) ''http://cb'') ''abc123'' PNone []) = Inl (PurchaseDeclined msg)) \<and>
   (\<exists>msg. fst (verify (\<lambda>_. Some (PDict [(''code'', PInt (- 4))]))
          (NextPay_init ''tok'' (PInt 1000) ''http://cb'') ''abc123'' PNone []) = Inl (PurchaseCanceled msg)) \<and>
   (\<exists>msg. fst (verify (\<lambda>_. Some (PDict [(''code'', PInt (- 24))]))
          (NextPay_init ''tok'' (PInt 1000) ''http://cb'') ''abc123'' PNone []) = Inl (InvalidPrice msg)) \<and>
   (\<exists>msg. fst (verify (\<lambda>_. Some (PDict [(''code'', PInt (- 25))]))
          (NextPay_init ''tok'' (PInt 1000) ''http://cb'') ''abc123'' PNone []) = Inl (PurchaseAlreadyMade msg)) \<and>
   (\<exists>msg. fst (verify (\<lambda>_. Some (PDict [(''code'', PInt (- 27))]))
          (NextPay_init ''tok'' (PInt 1000) ''http://cb'') ''abc123'' PNone []) = Inl (InvalidTransId msg)) \<and>
   (\<exists>msg. fst (verify (\<lambda>_. Some (PDict [(''code'', PInt (- 90))]))
          (NextPay_init ''tok'' (PInt 1000) ''http://cb'') ''abc123'' PNone []) = Inl (UnknownHandled msg))"
proof -
  have r0: "fst (verify (\<lambda>_. Some (PDict [(''code'', PInt 0)]))
          (NextPay_init ''tok'' (PInt 1000) ''http://cb'') ''abc123'' PNone []) = Inr True"
    using verify_code_table [where gw = "\<lambda>_. Some (PDict [(''code'', PInt 0)])"
        and result = "PDict [(''code'', PInt 0)]" and code = "PInt 0"
        and self = "NextPay_init ''tok'' (PInt 1000) ''http://cb''" and trans_id = "''abc123''" and currency = PNone and w = "[]"]
    by (simp add: subscript_def py_in_ints_def)
  have r1: "(\<exists>msg. fst (verify (\<lambda>_. Some (PDict [(''code'', PInt (- 2))]))
          (NextPay_init ''tok'' (PInt 1000) ''http://cb'') ''abc123'' PNone []) = Inl (PurchaseDeclined msg))"
    using verify_code_table [where gw = "\<lambda>_. Some (PDict [(''code'', PInt (- 2))])"
        and result = "PDict [(''code'', PInt (- 2))]" and code = "PInt (- 2)"
        and self = "NextPay_init ''tok'' (PInt 1000) ''http://cb''" and trans_id = "''abc123''" and currency = PNone and w = "[]"]
    by (simp add: subscript_def py_in_ints_def)
  have r2: "(\<exists>msg. fst (verify (\<lambda>_. Some (PDict [(''code'', PInt (- 4))]))
          (NextPay_init ''tok'' (PInt 1000) ''http://cb'') ''abc123'' PNone []) = Inl (PurchaseCanceled msg))"
    using verify_code_table [where gw = "\<lambda>_. Some (PDict [(''code'', PInt (- 4))])"
        and result = "PDict [(''code'', PInt (- 4))]" and code = "PInt (- 4)"
        and self = "NextPay_init ''tok'' (PInt 1000) ''http://cb''" and trans_id = "''abc123''" and currency = PNone and w = "[]"]
    by (simp add: subscript_def py_in_ints_def)
  have r3: "(\<exists>msg. fst (verify (\<lambda>_. Some (PDict [(''code'', PInt (- 24))]))
          (NextPay_init ''tok'' (PInt 1000) ''http://cb'') ''abc123'' PNone []) = Inl (InvalidPrice msg))"
    using verify_code_table [where gw = "\<lambda>_. Some (PDict [(''code'', PInt (- 24))])"
        and result = "PDict [(''code'', PInt (- 24))]" and code = "PInt (- 24)"
        and self = "NextPay_init ''tok'' (PInt 1000) ''http://cb''" and trans_id = "''abc123''" and currency = PNone and w = "[]"]
    by (simp add: subscript_def py_in_ints_def)
  have r4: "(\<exists>msg. fst (verify (\<lambda>_. Some (PDict [(''code'', PInt (- 25))]))
          (NextPay_init ''tok'' (PInt 1000) ''http://cb'') ''abc123'' PNone []) = Inl (PurchaseAlreadyMade msg))"
    using verify_code_table [where gw = "\<lambda>_. Some (PDict [(''code'', PInt (- 25))])"
        and result = "PDict [(''code'', PInt (- 25))]" and code = "PInt (- 25)"
        and self = "NextPay_init ''tok'' (PInt 1000) ''http://cb''" and trans_id = "''abc123''" and currency = PNone and w = "[]"]
    by (simp add: subscript_def py_in_ints_def)
  have r5: "(\<exists>msg. fst (verify (\<lambda>_. Some (PDict [(''code'', PInt (- 27))]))
          (NextPay_init ''tok'' (PInt 1000) ''http://cb'') ''abc123'' PNone []) = Inl (InvalidTransId msg))"
    using verify_code_table [where gw = "\<lambda>_. Some (PDict [(''code'', PInt (- 27))])"
        and result = "PDict [(''code'', PInt (- 27))]" and code = "PInt (- 27)"
        and self = "NextPay_init ''tok'' (PInt 1000) ''http://cb''" and trans_id = "''abc123''" and currency = PNone and w = "[]"]
    by (simp add: subscript_def py_in_ints_def)
  have r6: "(\<exists>msg. fst (verify (\<lambda>_. Some (PDict [(''code'', PInt (- 90))]))
          (NextPay_init ''tok'' (PInt 1000) ''http://cb'') ''abc123'' PNone []) = Inl (UnknownHandled msg))"
    using verify_code_table [where gw = "\<lambda>_. Some (PDict [(''code'', PInt (- 90))])"
        and result = "PDict [(''code'', PInt (- 90))]" and code = "PInt (- 90)"
        and self = "NextPay_init ''tok'' (PInt 1000) ''http://cb''" and trans_id = "''abc123''" and currency = PNone and w = "[]"]
    by (simp add: subscript_def py_in_ints_def)
  from r0 r1 r2 r3 r4 r5 r6 show ?thesis by (intro conjI)
qed

text \<open>
  C4. For every gateway response to \<open>refund\<close> that carries a \<open>code\<close>: when the code
  equals -90 the call returns \<open>True\<close>; -91 and -92 fail with \<open>RefundFailed\<close>, -93
  with \<open>NotEnoughBalance\<close>, -27 with \<open>InvalidTransId\<close>; every other code fails with
  \<open>UnknownHandled\<close>.
\<close>

theorem refund_code_table:
  assumes "gw (post_request refund_url (refund_data self trans_id)) = Some result"
    and "subscript result ''code'' = Inr code"
  shows
    "(py_eq_int code (- 90) \<longrightarrow> fst (refund gw self trans_id w) = Inr True) \<and>
     (py_eq_int code (- 91) \<or> py_eq_int code (- 92) \<longrightarrow>
        (\<exists>msg. fst (refund gw self trans_id w) = Inl (RefundFailed msg))) \<and>
     (py_eq_int code (- 93) \<longrightarrow>
        (\<exists>msg. fst (refund gw self trans_id w) = Inl (NotEnoughBalance msg))) \<and>
     (py_eq_int code (- 27) \<longrightarrow>
        (\<exists>msg. fst (refund gw self trans_id w) = Inl (InvalidTransId msg))) \<and>
     (\<not> py_in_ints code [- 90, - 91, - 92, - 93, - 27] \<longrightarrow>
        (\<exists>msg. fst (refund gw self trans_id w) = Inl (UnknownHandled msg)))"
proof -
  have sent: "fst (refund gw self trans_id w) = refund_classify result"
    using assms(1) by (simp add: refund_sent)
  show ?thesis
    unfolding sent using assms(2)
    by (cases code) (auto simp: refund_classify_def py_in_ints_def split: if_splits)
qed

text \<open>The table at the codes -90, -91, -92, -93, -27 and 0.\<close>

theorem refund_code_table_witness:
  "fst (refund (\<lambda>_. Some (PDict [(''code'', PInt (- 90))]))
          (NextPay_init ''tok'' (PInt 1000) ''http://cb'') ''abc123'' []) = Inr True \<and>
   (\<exists>msg. fst (refund (\<lambda>_. Some (PDict [(''code'', PInt (- 91))]))
          (NextPay_init ''tok'' (PInt 1000) ''http://cb'') ''abc123'' []) = Inl (RefundFailed msg)) \<and>
   (\<exists>msg. fst (refund (\<lambda>_. Some (PDict [(''code'', PInt (- 92))]))
          (NextPay_init ''tok'' (PInt 1000) ''http://cb'') ''abc123'' []) = Inl (RefundFailed msg)) \<and>
   (\<exists>msg. fst (refund (\<lambda>_. Some (PDict [(''code'', PInt (- 93))]))
          (NextPay_init ''tok'' (PInt 1000) ''http://cb'') ''abc123'' []) = Inl (NotEnoughBalance msg)) \<and>
   (\<exists>msg. fst (refund (\<lambda>_. Some (PDict [(''code'', PInt (- 27))]))
          (NextPay_init ''tok'' (PInt 1000) ''http://cb'') ''abc123'' []) = Inl (InvalidTransId msg)) \<and>
   (\<exists>msg. fst (refund (\<lambda>_. Some (PDict [(''code'', PInt 0)]))
          (NextPay_init ''tok'' (PInt 1000) ''http://cb'') ''abc123'' []) = Inl (UnknownHandled msg))"
proof -
  have r0: "fst (refund (\<lambda>_. Some (PDict [(''code'', PInt (- 90))]))
          (NextPay_init ''tok'' (PInt 1000) ''http://cb'') ''abc123'' []) = Inr True"
    using refund_code_table [where gw = "\<lambda>_. Some (PDict [(''code'', PInt (- 90))])"
        and result = "PDict [(''code'', PInt (- 90))]" and code = "PInt (- 90)"
        and self = "NextPay_init ''tok'' (PInt 1000) ''http://cb''" and trans_id = "''abc123''" and w = "[]"]
    by (simp add: subscript_def py_in_ints_def)
  have r1: "(\<exists>msg. fst (refund (\<lambda>_. Some (PDict [(''code'', PInt (- 91))]))
          (NextPay_init ''tok'' (PInt 1000) ''http://cb'') ''abc123'' []) = Inl (RefundFailed msg))"
    using refund_code_table [where gw = "\<lambda>_. Some (PDict [(''code'', PInt (- 91))])"
        and result = "PDict [(''code'', PInt (- 91))]" and code = "PInt (- 91)"
        and self = "NextPay_init ''tok'' (PInt 1000) ''http://cb''" and trans_id = "''abc123''" and w = "[]"]
    by (simp add: subscript_def py_in_ints_def)
  have r2: "(\<exists>msg. fst (refund (\<lambda>_. Some (PDict [(''code'', PInt (- 92))]))
          (NextPay_init ''tok'' (PInt 1000) ''http://cb'') ''abc123'' []) = Inl (RefundFailed msg))"
    using refund_code_table [where gw = "\<lambda>_. Some (PDict [(''code'', PInt (- 92))])"
        and result = "PDict [(''code'', PInt (- 92))]" and code = "PInt (- 92)"
        and self = "NextPay_init ''tok'' (PInt 1000) ''http://cb''" and trans_id = "''abc123''" and w = "[]"]
    by (simp add: subscript_def py_in_ints_def)
  have r3: "(\<exists>msg. fst (refund (\<lambda>_. Some (PDict [(''code'', PInt (- 93))]))
          (NextPay_init ''tok'' (PInt 1000) ''http://cb'') ''abc123'' []) = Inl (NotEnoughBalance msg))"
    using refund_code_table [where gw = "\<lambda>_. Some (PDict [(''code'', PInt (- 93))])"
        and result = "PDict [(''code'', PInt (- 93))]" and code = "PInt (- 93)"
        and self = "NextPay_init ''tok'' (PInt 1000) ''http://cb''" and trans_id = "''abc123''" and w = "[]"]
    by (simp add: subscript_def py_in_ints_def)
  have r4: "(\<exists>msg. fst (refund (\<lambda>_. Some (PDict [(''code'', PInt (- 27))]))
          (NextPay_init ''tok'' (PInt 1000) ''http://cb'') ''abc123'' []) = Inl (InvalidTransId msg))"
    using refund_code_table [where gw = "\<lambda>_. Some (PDict [(''code'', PInt (- 27))])"
        and result = "PDict [(''code'', PInt (- 27))]" and code = "PInt (- 27)"
        and self = "NextPay_init ''tok'' (PInt 1000) ''http://cb''" and trans_id = "''abc123''" and w = "[]"]
    by (simp add: subscript_def py_in_ints_def)
  have r5: "(\<exists>msg. fst (refund (\<lambda>_. Some (PDict [(''code'', PInt 0)]))
          (NextPay_init ''tok'' (PInt 1000) ''http://cb'') ''abc123'' []) = Inl (UnknownHandled msg))"
    using refund_code_table [where gw = "\<lambda>_. Some (PDict [(''code'', PInt 0)])"
        and result = "PDict [(''code'', PInt 0)]" and code = "PInt 0"
        and self = "NextPay_init ''tok'' (PInt 1000) ''http://cb''" and trans_id = "''abc123''" and w = "[]"]
    by (simp add: subscript_def py_in_ints_def)
  from r0 r1 r2 r3 r4 r5 show ?thesis by (intro conjI)
qed

section \<open>Local validation and the request sent\<close>

text \<open>
  C2. A call of \<open>purchase\<close> whose keyword arguments hold a key outside \<open>currency\<close>,
  \<open>phone\<close>, \<open>custom_json_fields\<close>, \<open>payer_name\<close>, \<open>payer_desc\<close>,
  \<open>auto_verify\<close>, \<open>allowed_card\<close> fails with \<open>InvalidKey\<close>, and the world
  after the call is the world before it: no request is posted.
\<close>

theorem invalid_key_no_request:
  assumes "key \<in> fst ` set kwargs"
    and "key \<notin> {''currency'', ''phone'', ''custom_json_fields'', ''payer_name'', ''payer_desc'',
                  ''auto_verify'', ''allowed_card''}"
  shows "\<exists>msg. purchase gw self order_id kwargs w = (Inl (InvalidKey msg), self, w)"
proof -
  from assms have "\<not> fst ` set kwargs \<subseteq> set allowed_keys"
    unfolding set_allowed_keys by blast
  from purchase_data_invalid [OF this, of self order_id]
  obtain k where "purchase_data self order_id kwargs =
       Inl (InvalidKey (''key '' @ k @ '' is invalid for NextPay.org''))"
    by blast
  from purchase_not_sent [OF this] show ?thesis by blast
qed

text \<open>The keyword arguments \<open>currency='IRT', colour='red'\<close>.\<close>

theorem invalid_key_no_request_witness:
  "\<exists>msg. purchase (\<lambda>_. Some (PDict [(''code'', PInt (- 1)), (''trans_id'', PStr ''abc123'')]))
      (NextPay_init ''tok'' (PInt 1000) ''http://cb'') ''o1''
      [(''currency'', PStr ''IRT''), (''colour'', PStr ''red'')] [] =
    (Inl (InvalidKey msg), NextPay_init ''tok'' (PInt 1000) ''http://cb'', [])"
  using invalid_key_no_request [where key = "''colour''"
      and kwargs = "[(''currency'', PStr ''IRT''), (''colour'', PStr ''red'')]"
      and gw = "\<lambda>_. Some (PDict [(''code'', PInt (- 1)), (''trans_id'', PStr ''abc123'')])"
      and self = "NextPay_init ''tok'' (PInt 1000) ''http://cb''" and order_id = "''o1''" and w = "[]"]
  by simp

section \<open>Codes outside the tables\<close>

text \<open>
  C5. For every integer code outside the table of an operation, the operation fails with
  \<open>UnknownHandled\<close> and the message contains the decimal form of the code. A call
  that returns a value has been answered with a code equal to the success code of its
  operation: -1 for \<open>purchase\<close>, 0 for \<open>verify\<close>, -90 for \<open>refund\<close>.
\<close>

theorem unlisted_code_unhandled:
  "(purchase_data self order_id kwargs = Inr d \<and>
    gw (post_request purchase_url d) = Some result \<and>
    subscript result ''code'' = Inr (PInt c) \<and>
    c \<notin> {- 1, - 32, - 73, - 33, - 35, - 38, - 39, - 40, - 47} \<longrightarrow>
      (\<exists>msg. fst (purchase gw self order_id kwargs w) = Inl (UnknownHandled msg) \<and>
         sublist (str_int c) msg)) \<and>
   (gw (post_request verify_url (verify_data self trans_id currency)) = Some result \<and>
    subscript result ''code'' = Inr (PInt c) \<and>
    c \<notin> {0, - 2, - 4, - 24, - 25, - 27} \<longrightarrow>
      (\<exists>msg. fst (verify gw self trans_id currency w) = Inl (UnknownHandled msg) \<and>
         sublist (str_int c) msg)) \<and>
   (gw (post_request refund_url (refund_data self trans_id)) = Some result \<and>
    subscript result ''code'' = Inr (PInt c) \<and>
    c \<notin> {- 90, - 91, - 92, - 93, - 27} \<longrightarrow>
      (\<exists>msg. fst (refund gw self trans_id w) = Inl (UnknownHandled msg) \<and>
         sublist (str_int c) msg)) \<and>
   (fst (purchase gw self order_id kwargs w) = Inr v \<longrightarrow>
      (\<exists>d' result' code. purchase_data self order_id kwargs = Inr d' \<and>
         gw (post_request purchase_url d') = Some result' \<and>
         subscript result' ''code'' = Inr code \<and> py_eq_int code (- 1))) \<and>
   (fst (verify gw self trans_id currency w) = Inr b \<longrightarrow>
      (\<exists>result' code.
         gw (post_request verify_url (verify_data self trans_id currency)) = Some result' \<and>
         subscript result' ''code'' = Inr code \<and> py_eq_int code 0)) \<and>
   (fst (refund gw self trans_id w) = Inr b \<longrightarrow>
      (\<exists>result' code.
         gw (post_request refund_url (refund_data self trans_id)) = Some result' \<and>
         subscript result' ''code'' = Inr code \<and> py_eq_int code (- 90)))"
proof (intro conjI impI)
  assume "purchase_data self order_id kwargs = Inr d \<and>
    gw (post_request purchase_url d) = Some result \<and>
    subscript result ''code'' = Inr (PInt c) \<and>
    c \<notin> {- 1, - 32, - 73, - 33, - 35, - 38, - 39, - 40, - 47}"
  then have "fst (purchase gw self order_id kwargs w) =
      Inl (UnknownHandled (''Un-handled error code : '' @ str_int c))"
    by (simp add: purchase_result purchase_classify_unlisted)
  then show "\<exists>msg. fst (purchase gw self order_id kwargs w) = Inl (UnknownHandled msg) \<and>
         sublist (str_int c) msg"
    using sublist_suffix by blast
next
  assume "gw (post_request verify_url (verify_data self trans_id currency)) = Some result \<and>
    subscript result ''code'' = Inr (PInt c) \<and>
    c \<notin> {0, - 2, - 4, - 24, - 25, - 27}"
  then have "fst (verify gw self trans_id currency w) =
      Inl (UnknownHandled (''Un-handled error code : '' @ str_int c))"
    by (simp add: verify_result verify_classify_unlisted)
  then show "\<exists>msg. fst (verify gw self trans_id currency w) = Inl (UnknownHandled msg) \<and>
         sublist (str_int c) msg"
    using sublist_suffix by blast
next
  assume "gw (post_request refund_url (refund_data self trans_id)) = Some result \<and>
    subscript result ''code'' = Inr (PInt c) \<and>
    c \<notin> {- 90, - 91, - 92, - 93, - 27}"
  then have "fst (refund gw self trans_id w) =
      Inl (UnknownHandled (''Un-handled error code : '' @ str_int c))"
    by (simp add: refund_result refund_classify_unlisted)
  then show "\<exists>msg. fst (refund gw self trans_id w) = Inl (UnknownHandled msg) \<and>
         sublist (str_int c) msg"
    using sublist_suffix by blast
next
  assume ok: "fst (purchase gw self order_id kwargs w) = Inr v"
  show "\<exists>d' result' code. purchase_data self order_id kwargs = Inr d' \<and>
         gw (post_request purchase_url d') = Some result' \<and>
         subscript result' ''code'' = Inr code \<and> py_eq_int code (- 1)"
  proof (cases "purchase_data self order_id kwargs")
    case (Inl e)
    with ok show ?thesis by (simp add: purchase_not_sent)
  next
    case (Inr d')
    show ?thesis
    proof (cases "gw (post_request purchase_url d')")
      case None
      with ok Inr show ?thesis by (simp add: purchase_result)
    next
      case (Some result')
      with ok Inr have "purchase_classify self result' = Inr v"
        by (simp add: purchase_result)
      from purchase_classify_success [OF this] Inr Some show ?thesis by blast
    qed
  qed
next
  assume ok: "fst (verify gw self trans_id currency w) = Inr b"
  show "\<exists>result' code.
         gw (post_request verify_url (verify_data self trans_id currency)) = Some result' \<and>
         subscript result' ''code'' = Inr code \<and> py_eq_int code 0"
  proof (cases "gw (post_request verify_url (verify_data self trans_id currency))")
    case None
    with ok show ?thesis by (simp add: verify_result)
  next
    case (Some result')
    with ok have "verify_classify result' = Inr b"
      by (simp add: verify_result)
    from verify_classify_success [OF this] Some show ?thesis by blast
  qed
next
  assume ok: "fst (refund gw self trans_id w) = Inr b"
  show "\<exists>result' code.
         gw (post_request refund_url (refund_data self trans_id)) = Some result' \<and>
         subscript result' ''code'' = Inr code \<and> py_eq_int code (- 90)"
  proof (cases "gw (post_request refund_url (refund_data self trans_id))")
    case None
    with ok show ?thesis by (simp add: refund_result)
  next
    case (Some result')
    with ok have "refund_classify result' = Inr b"
      by (simp add: refund_result)
    from refund_classify_success [OF this] Some show ?thesis by blast
  qed
qed

text \<open>The code 7 in each operation, and a successful call of each operation.\<close>

theorem unlisted_code_unhandled_witness:
  "(\<exists>msg. fst (purchase (\<lambda>_. Some (PDict [(''code'', PInt 7)]))
       (NextPay_init ''tok'' (PInt 1000) ''http://cb'') ''o1'' [] []) = Inl (UnknownHandled msg) \<and>
     sublist ''7'' msg) \<and>
   (\<exists>msg. fst (verify (\<lambda>_. Some (PDict [(''code'', PInt 7)]))
       (NextPay_init ''tok'' (PInt 1000) ''http://cb'') ''abc123'' PNone []) = Inl (UnknownHandled msg) \<and>
     sublist ''7'' msg) \<and>
   (\<exists>msg. fst (refund (\<lambda>_. Some (PDict [(''code'', PInt 7)]))
       (NextPay_init ''tok'' (PInt 1000) ''http://cb'') ''abc123'' []) = Inl (UnknownHandled msg) \<and>
     sublist ''7'' msg) \<and>
   (\<exists>d result code.
      purchase_data (NextPay_init ''tok'' (PInt 1000) ''http://cb'') ''o1'' [] = Inr d \<and>
      (\<lambda>_. Some (PDict [(''code'', PInt (- 1)), (''trans_id'', PStr ''abc123'')]))
        (post_request purchase_url d) = Some result \<and>
      subscript result ''code'' = Inr code \<and> py_eq_int code (- 1)) \<and>
   (\<exists>result code.
      (\<lambda>_. Some (PDict [(''code'', PInt 0)]))
        (post_request verify_url
          (verify_data (NextPay_init ''tok'' (PInt 1000) ''http://cb'') ''abc123'' PNone)) = Some result \<and>
      subscript result ''code'' = Inr code \<and> py_eq_int code 0) \<and>
   (\<exists>result code.
      (\<lambda>_. Some (PDict [(''code'', PInt (- 90))]))
        (post_request refund_url
          (refund_data (NextPay_init ''tok'' (PInt 1000) ''http://cb'') ''abc123'')) = Some result \<and>
      subscript result ''code'' = Inr code \<and> py_eq_int code (- 90))"
proof -
  let ?c = "NextPay_init ''tok'' (PInt 1000) ''http://cb''"
  let ?d = "[(''api_key'', PStr ''tok''), (''amount'', PInt 1000), (''order_id'', PStr ''o1''),
             (''callback_uri'', PStr ''http://cb'')]"
  let ?r7 = "PDict [(''code'', PInt 7)]"
  let ?p = "PDict [(''code'', PInt (- 1)), (''trans_id'', PStr ''abc123'')]"
  have pd: "purchase_data ?c ''o1'' [] = Inr ?d"
    by (simp add: purchase_data_def add_field_def NextPay_init_def)
  have s7: "str_int 7 = ''7''"
    by (simp add: str_int_def str_nat.simps digit_char_def)
  have code7: "subscript ?r7 ''code'' = Inr (PInt 7)"
    by (simp add: subscript_def)
  note u = unlisted_code_unhandled [where gw = "\<lambda>_. Some ?r7" and result = ?r7 and c = 7
      and self = ?c and order_id = "''o1''" and kwargs = "[]" and d = ?d
      and trans_id = "''abc123''" and currency = PNone and w = "[]"]
  have a: "\<exists>msg. fst (purchase (\<lambda>_. Some ?r7) ?c ''o1'' [] []) = Inl (UnknownHandled msg) \<and>
      sublist ''7'' msg"
    using u pd code7 by (simp add: s7)
  have b: "\<exists>msg. fst (verify (\<lambda>_. Some ?r7) ?c ''abc123'' PNone []) = Inl (UnknownHandled msg) \<and>
      sublist ''7'' msg"
    using u code7 by (simp add: s7)
  have c: "\<exists>msg. fst (refund (\<lambda>_. Some ?r7) ?c ''abc123'' []) = Inl (UnknownHandled msg) \<and>
      sublist ''7'' msg"
    using u code7 by (simp add: s7)
  have okp: "fst (purchase (\<lambda>_. Some ?p) ?c ''o1'' [] []) = Inr (PStr ''abc123'')"
    by (simp add: run_defs)
  have d: "\<exists>d result code. purchase_data ?c ''o1'' [] = Inr d \<and>
      (\<lambda>_. Some ?p) (post_request purchase_url d) = Some result \<and>
      subscript result ''code'' = Inr code \<and> py_eq_int code (- 1)"
    using unlisted_code_unhandled [where gw = "\<lambda>_. Some ?p" and self = ?c
        and order_id = "''o1''" and kwargs = "[]" and w = "[]" and v = "PStr ''abc123''",
        THEN conjunct2, THEN conjunct2, THEN conjunct2, THEN conjunct1, THEN mp, OF okp]
    by simp
  have okv: "fst (verify (\<lambda>_. Some (PDict [(''code'', PInt 0)])) ?c ''abc123'' PNone []) = Inr True"
    by (simp add: run_defs)
  have e: "\<exists>result code. (\<lambda>_. Some (PDict [(''code'', PInt 0)]))
        (post_request verify_url (verify_data ?c ''abc123'' PNone)) = Some result \<and>
      subscript result ''code'' = Inr code \<and> py_eq_int code 0"
    using unlisted_code_unhandled [where gw = "\<lambda>_. Some (PDict [(''code'', PInt 0)])" and self = ?c
        and trans_id = "''abc123''" and currency = PNone and w = "[]" and b = True,
        THEN conjunct2, THEN conjunct2, THEN conjunct2, THEN conjunct2, THEN conjunct1, THEN mp, OF okv]
    by simp
  have okr: "fst (refund (\<lambda>_. Some (PDict [(''code'', PInt (- 90))])) ?c ''abc123'' []) = Inr True"
    by (simp add: run_defs)
  have f: "\<exists>result code. (\<lambda>_. Some (PDict [(''code'', PInt (- 90))]))
        (post_request refund_url (refund_data ?c ''abc123'')) = Some result \<and>
      subscript result ''code'' = Inr code \<and> py_eq_int code (- 90)"
    using unlisted_code_unhandled [where gw = "\<lambda>_. Some (PDict [(''code'', PInt (- 90))])" and self = ?c
        and trans_id = "''abc123''" and w = "[]" and b = True,
        THEN conjunct2, THEN conjunct2, THEN conjunct2, THEN conjunct2, THEN conjunct2, THEN mp, OF okr]
    by simp
  from a b c d e f show ?thesis by (intro conjI)
qed

section \<open>The form data of \<open>verify\<close> and \<open>refund\<close>\<close>

text \<open>
  C6. In \<open>verify\<close>, a currency that is \<open>'IRT'\<close> or \<open>'IRR'\<close> is sent as the field
  \<open>currency\<close>; any other value, \<open>None\<close> included, is left out of the form data.
  In both cases the request is posted and the result of the call is the classification
  of the gateway's answer: nothing fails before the request.
\<close>

theorem verify_currency_filter:
  "(currency = PStr ''IRT'' \<or> currency = PStr ''IRR'' \<longrightarrow>
      verify_data self trans_id currency =
        [(''api_key'', PStr (token self)), (''amount'', amount self),
         (''trans_id'', PStr trans_id), (''currency'', currency)]) \<and>
   (currency \<noteq> PStr ''IRT'' \<and> currency \<noteq> PStr ''IRR'' \<longrightarrow>
      verify_data self trans_id currency =
        [(''api_key'', PStr (token self)), (''amount'', amount self),
         (''trans_id'', PStr trans_id)] \<and>
      ''currency'' \<notin> fst ` set (verify_data self trans_id currency)) \<and>
   snd (snd (verify gw self trans_id currency w)) =
     w @ [post_request verify_url (verify_data self trans_id currency)] \<and>
   fst (verify gw self trans_id currency w) =
     (case gw (post_request verify_url (verify_data self trans_id currency)) of
        None \<Rightarrow> Inl TransportError
      | Some result \<Rightarrow> verify_classify result)"
proof (intro conjI impI)
  assume "currency = PStr ''IRT'' \<or> currency = PStr ''IRR''"
  then show "verify_data self trans_id currency =
        [(''api_key'', PStr (token self)), (''amount'', amount self),
         (''trans_id'', PStr trans_id), (''currency'', currency)]"
    by (rule verify_data_currency)
next
  assume n: "currency \<noteq> PStr ''IRT'' \<and> currency \<noteq> PStr ''IRR''"
  then show d: "verify_data self trans_id currency =
        [(''api_key'', PStr (token self)), (''amount'', amount self),
         (''trans_id'', PStr trans_id)]"
    by (simp add: verify_data_no_currency)
  show "''currency'' \<notin> fst ` set (verify_data self trans_id currency)"
    unfolding d by simp
next
  show "snd (snd (verify gw self trans_id currency w)) =
     w @ [post_request verify_url (verify_data self trans_id currency)]"
    by (rule verify_world)
next
  show "fst (verify gw self trans_id currency w) =
     (case gw (post_request verify_url (verify_data self trans_id currency)) of
        None \<Rightarrow> Inl TransportError
      | Some result \<Rightarrow> verify_classify result)"
    by (rule verify_result)
qed

text \<open>The currencies \<open>'USD'\<close>, \<open>None\<close> and \<open>'IRR'\<close>.\<close>

theorem verify_currency_filter_witness:
  "data (last (snd (snd (verify (\<lambda>_. Some (PDict [(''code'', PInt 0)]))
       (NextPay_init ''tok'' (PInt 1000) ''http://cb'') ''abc123'' (PStr ''USD'') [])))) =
     [(''api_key'', PStr ''tok''), (''amount'', PInt 1000), (''trans_id'', PStr ''abc123'')] \<and>
   fst (verify (\<lambda>_. Some (PDict [(''code'', PInt 0)]))
       (NextPay_init ''tok'' (PInt 1000) ''http://cb'') ''abc123'' (PStr ''USD'') []) = Inr True \<and>
   data (last (snd (snd (verify (\<lambda>_. Some (PDict [(''code'', PInt 0)]))
       (NextPay_init ''tok'' (PInt 1000) ''http://cb'') ''abc123'' PNone [])))) =
     [(''api_key'', PStr ''tok''), (''amount'', PInt 1000), (''trans_id'', PStr ''abc123'')] \<and>
   data (last (snd (snd (verify (\<lambda>_. Some (PDict [(''code'', PInt 0)]))
       (NextPay_init ''tok'' (PInt 1000) ''http://cb'') ''abc123'' (PStr ''IRR'') [])))) =
     [(''api_key'', PStr ''tok''), (''amount'', PInt 1000), (''trans_id'', PStr ''abc123''),
      (''currency'', PStr ''IRR'')]"
proof -
  let ?c = "NextPay_init ''tok'' (PInt 1000) ''http://cb''"
  let ?gw = "\<lambda>_::request. Some (PDict [(''code'', PInt 0)])"
  have tok: "token ?c = ''tok''" "amount ?c = PInt 1000"
    by (simp_all add: NextPay_init_def)
  have vc: "verify_classify (PDict [(''code'', PInt 0)]) = Inr True"
    by (simp add: verify_classify_def subscript_def)
  have a: "data (last (snd (snd (verify ?gw ?c ''abc123'' (PStr ''USD'') [])))) =
     [(''api_key'', PStr ''tok''), (''amount'', PInt 1000), (''trans_id'', PStr ''abc123'')] \<and>
     fst (verify ?gw ?c ''abc123'' (PStr ''USD'') []) = Inr True"
    using verify_currency_filter [where currency = "PStr ''USD''" and self = ?c
        and trans_id = "''abc123''" and gw = ?gw and w = "[]"]
    by (simp add: tok vc post_request_def)
  have b: "data (last (snd (snd (verify ?gw ?c ''abc123'' PNone [])))) =
     [(''api_key'', PStr ''tok''), (''amount'', PInt 1000), (''trans_id'', PStr ''abc123'')]"
    using verify_currency_filter [where currency = PNone and self = ?c
        and trans_id = "''abc123''" and gw = ?gw and w = "[]"]
    by (simp add: tok post_request_def)
  have c: "data (last (snd (snd (verify ?gw ?c ''abc123'' (PStr ''IRR'') [])))) =
     [(''api_key'', PStr ''tok''), (''amount'', PInt 1000), (''trans_id'', PStr ''abc123''),
      (''currency'', PStr ''IRR'')]"
    using verify_currency_filter [where currency = "PStr ''IRR''" and self = ?c
        and trans_id = "''abc123''" and gw = ?gw and w = "[]"]
    by (simp add: tok post_request_def)
  from a b c show ?thesis by simp
qed

text \<open>
  C7. The form data of \<open>refund(trans_id)\<close> is the form data of \<open>verify(trans_id)\<close>
  without a currency, followed by the single field \<open>refund_request=yes_money_back\<close>,
  and both requests are posted to the same URL.
\<close>

theorem refund_body_extends_verify:
  "refund_data self trans_id =
     verify_data self trans_id PNone @ [(''refund_request'', PStr ''yes_money_back'')] \<and>
   refund_url = verify_url \<and>
   snd (snd (verify gw self trans_id PNone w)) =
     w @ [post_request verify_url (verify_data self trans_id PNone)] \<and>
   snd (snd (refund gw' self trans_id w)) =
     w @ [post_request verify_url
            (verify_data self trans_id PNone @ [(''refund_request'', PStr ''yes_money_back'')])]"
proof -
  have d: "refund_data self trans_id =
     verify_data self trans_id PNone @ [(''refund_request'', PStr ''yes_money_back'')]"
    by (simp add: refund_data_fields verify_data_no_currency)
  have u: "refund_url = verify_url"
    by (simp add: refund_url_def verify_url_def)
  have r: "snd (snd (refund gw' self trans_id w)) =
     w @ [post_request verify_url
            (verify_data self trans_id PNone @ [(''refund_request'', PStr ''yes_money_back'')])]"
    using refund_world [of gw' self trans_id w] by (simp only: d u)
  from d u r verify_world [of gw self trans_id PNone w] show ?thesis by (intro conjI)
qed

section \<open>The state of the client\<close>

text \<open>
  C8. \<open>__init__\<close> assigns the three attributes and nothing else, and after a call of
  \<open>purchase\<close>, \<open>verify\<close> or \<open>refund\<close> the instance is the one before the
  call, whether the call returns or raises.
\<close>

theorem client_state_unchanged:
  "token (NextPay_init t a c) = t \<and>
   amount (NextPay_init t a c) = a \<and>
   callback_uri (NextPay_init t a c) = c \<and>
   fst (snd (purchase gw self order_id kwargs w)) = self \<and>
   fst (snd (verify gw self trans_id currency w)) = self \<and>
   fst (snd (refund gw self trans_id w)) = self"
proof -
  have p: "fst (snd (purchase gw self order_id kwargs w)) = self"
  proof (cases "purchase_data self order_id kwargs")
    case (Inl e)
    then show ?thesis by (simp add: purchase_not_sent)
  next
    case (Inr d)
    then show ?thesis
      by (cases "gw (post_request purchase_url d)") (simp_all add: purchase_def post_def Let_def)
  qed
  have v: "fst (snd (verify gw self trans_id currency w)) = self"
    by (cases "gw (post_request verify_url (verify_data self trans_id currency))")
      (simp_all add: verify_def post_def Let_def)
  have r: "fst (snd (refund gw self trans_id w)) = self"
    by (cases "gw (post_request refund_url (refund_data self trans_id))")
      (simp_all add: refund_def post_def Let_def)
  from p v r show ?thesis by (simp add: NextPay_init_def)
qed

section \<open>Inputs that are not validated and fields that are not read\<close>

text \<open>
  C9. No operation checks that its string argument is not empty. For every string,
  the empty one included, \<open>purchase(order_id)\<close> with accepted keyword arguments posts
  a request whose field \<open>order_id\<close> is that string, \<open>verify(trans_id)\<close> and
  \<open>refund(trans_id)\<close> post a request whose field \<open>trans_id\<close> is that string, and
  none of the calls raises the local validation error \<open>InvalidKey\<close>.
\<close>

theorem no_emptiness_check:
  "(fst ` set kwargs \<subseteq> {''currency'', ''phone'', ''custom_json_fields'', ''payer_name'',
                           ''payer_desc'', ''auto_verify'', ''allowed_card''} \<longrightarrow>
      snd (snd (purchase gw self order_id kwargs w)) =
        w @ [post_request purchase_url
               ([(''api_key'', PStr (token self)), (''amount'', amount self),
                 (''order_id'', PStr order_id)] @ kwargs @
                [(''callback_uri'', PStr (callback_uri self))])] \<and>
      (\<forall>msg. fst (purchase gw self order_id kwargs w) \<noteq> Inl (InvalidKey msg))) \<and>
   snd (snd (verify gw self trans_id currency w)) =
     w @ [post_request verify_url (verify_data self trans_id currency)] \<and>
   (''trans_id'', PStr trans_id) \<in> set (verify_data self trans_id currency) \<and>
   (\<forall>msg. fst (verify gw self trans_id currency w) \<noteq> Inl (InvalidKey msg)) \<and>
   snd (snd (refund gw self trans_id w)) =
     w @ [post_request refund_url
            [(''api_key'', PStr (token self)), (''amount'', amount self),
             (''trans_id'', PStr trans_id), (''refund_request'', PStr ''yes_money_back'')]] \<and>
   (\<forall>msg. fst (refund gw self trans_id w) \<noteq> Inl (InvalidKey msg))"
proof -
  note cp = purchase_classify_not_InvalidKey
  note cv = verify_classify_not_InvalidKey
  note cr = refund_classify_not_InvalidKey
  have p: "snd (snd (purchase gw self order_id kwargs w)) =
        w @ [post_request purchase_url
               ([(''api_key'', PStr (token self)), (''amount'', amount self),
                 (''order_id'', PStr order_id)] @ kwargs @
                [(''callback_uri'', PStr (callback_uri self))])] \<and>
      (\<forall>msg. fst (purchase gw self order_id kwargs w) \<noteq> Inl (InvalidKey msg))"
    if "fst ` set kwargs \<subseteq> {''currency'', ''phone'', ''custom_json_fields'', ''payer_name'',
                           ''payer_desc'', ''auto_verify'', ''allowed_card''}"
  proof -
    from that have "fst ` set kwargs \<subseteq> set allowed_keys"
      by (simp only: set_allowed_keys)
    note d = purchase_data_allowed [OF this, of self order_id]
    have "\<forall>msg. fst (purchase gw self order_id kwargs w) \<noteq> Inl (InvalidKey msg)"
      unfolding purchase_result [OF d] using cp by (simp split: option.splits)
    with purchase_world [OF d, of gw w] show ?thesis by simp
  qed
  have v: "\<forall>msg. fst (verify gw self trans_id currency w) \<noteq> Inl (InvalidKey msg)"
    unfolding verify_result using cv by (simp split: option.splits)
  have r: "\<forall>msg. fst (refund gw self trans_id w) \<noteq> Inl (InvalidKey msg)"
    unfolding refund_result using cr by (simp split: option.splits)
  have m: "(''trans_id'', PStr trans_id) \<in> set (verify_data self trans_id currency)"
    by (simp add: verify_data_def add_field_def Let_def)
  have rw: "snd (snd (refund gw self trans_id w)) =
     w @ [post_request refund_url
            [(''api_key'', PStr (token self)), (''amount'', amount self),
             (''trans_id'', PStr trans_id), (''refund_request'', PStr ''yes_money_back'')]]"
    using refund_world [of gw self trans_id w] by (simp only: refund_data_fields)
  have p': "fst ` set kwargs \<subseteq> {''currency'', ''phone'', ''custom_json_fields'', ''payer_name'',
                           ''payer_desc'', ''auto_verify'', ''allowed_card''} \<longrightarrow>
      snd (snd (purchase gw self order_id kwargs w)) =
        w @ [post_request purchase_url
               ([(''api_key'', PStr (token self)), (''amount'', amount self),
                 (''order_id'', PStr order_id)] @ kwargs @
                [(''callback_uri'', PStr (callback_uri self))])] \<and>
      (\<forall>msg. fst (purchase gw self order_id kwargs w) \<noteq> Inl (InvalidKey msg))"
    by (rule impI) (rule p)
  from p' verify_world [of gw self trans_id currency w] m v rw r show ?thesis
    by (intro conjI)
qed

text \<open>The three operations at the empty string.\<close>

theorem no_emptiness_check_witness:
  "snd (snd (purchase (\<lambda>_. None) (NextPay_init ''tok'' (PInt 1000) ''http://cb'') '''' [] [])) =
     [post_request purchase_url
        [(''api_key'', PStr ''tok''), (''amount'', PInt 1000), (''order_id'', PStr ''''),
         (''callback_uri'', PStr ''http://cb'')]] \<and>
   snd (snd (verify (\<lambda>_. None) (NextPay_init ''tok'' (PInt 1000) ''http://cb'') '''' PNone [])) =
     [post_request verify_url
        [(''api_key'', PStr ''tok''), (''amount'', PInt 1000), (''trans_id'', PStr '''')]] \<and>
   snd (snd (refund (\<lambda>_. None) (NextPay_init ''tok'' (PInt 1000) ''http://cb'') '''' [])) =
     [post_request refund_url
        [(''api_key'', PStr ''tok''), (''amount'', PInt 1000), (''trans_id'', PStr ''''),
         (''refund_request'', PStr ''yes_money_back'')]]"
  using no_emptiness_check [where kwargs = "[]" and gw = "\<lambda>_. None"
      and self = "NextPay_init ''tok'' (PInt 1000) ''http://cb''" and order_id = "''''"
      and trans_id = "''''" and currency = PNone and w = "[]"]
  by (simp add: NextPay_init_def verify_data_def py_in_strs_def add_field_def)

text \<open>
  C10. The outcome of an operation depends on the response only through
  \<open>result['code']\<close> and, for \<open>purchase\<close> with a code equal to -1, through
  \<open>result['trans_id']\<close>: two gateways whose answers to the request agree there give
  the same outcome, whatever else the answers hold.
\<close>

theorem outcome_by_code_only:
  "(purchase_data self order_id kwargs = Inr d \<and>
    gw (post_request purchase_url d) = Some r \<and> gw' (post_request purchase_url d) = Some r' \<and>
    subscript r ''code'' = subscript r' ''code'' \<and>
    (\<forall>code. subscript r ''code'' = Inr code \<and> py_eq_int code (- 1) \<longrightarrow>
       subscript r ''trans_id'' = subscript r' ''trans_id'') \<longrightarrow>
      purchase gw self order_id kwargs w = purchase gw' self order_id kwargs w) \<and>
   (gw (post_request verify_url (verify_data self trans_id currency)) = Some r \<and>
    gw' (post_request verify_url (verify_data self trans_id currency)) = Some r' \<and>
    subscript r ''code'' = subscript r' ''code'' \<longrightarrow>
      verify gw self trans_id currency w = verify gw' self trans_id currency w) \<and>
   (gw (post_request refund_url (refund_data self trans_id)) = Some r \<and>
    gw' (post_request refund_url (refund_data self trans_id)) = Some r' \<and>
    subscript r ''code'' = subscript r' ''code'' \<longrightarrow>
      refund gw self trans_id w = refund gw' self trans_id w)"
proof (intro conjI impI; elim conjE)
  assume d: "purchase_data self order_id kwargs = Inr d"
    and g1: "gw (post_request purchase_url d) = Some r"
    and g2: "gw' (post_request purchase_url d) = Some r'"
    and c: "subscript r ''code'' = subscript r' ''code''"
    and t: "\<forall>code. subscript r ''code'' = Inr code \<and> py_eq_int code (- 1) \<longrightarrow>
       subscript r ''trans_id'' = subscript r' ''trans_id''"
  have "purchase_classify self r = purchase_classify self r'"
    using c t by (rule purchase_classify_cong)
  with purchase_sent [where gw = gw, OF d g1, of w]
    purchase_sent [where gw = gw', OF d g2, of w]
  show "purchase gw self order_id kwargs w = purchase gw' self order_id kwargs w"
    by simp
next
  assume g1: "gw (post_request verify_url (verify_data self trans_id currency)) = Some r"
    and g2: "gw' (post_request verify_url (verify_data self trans_id currency)) = Some r'"
    and c: "subscript r ''code'' = subscript r' ''code''"
  have "verify_classify r = verify_classify r'"
    using c by (rule verify_classify_cong)
  with verify_sent [where gw = gw, OF g1, of w] verify_sent [where gw = gw', OF g2, of w]
  show "verify gw self trans_id currency w = verify gw' self trans_id currency w"
    by simp
next
  assume g1: "gw (post_request refund_url (refund_data self trans_id)) = Some r"
    and g2: "gw' (post_request refund_url (refund_data self trans_id)) = Some r'"
    and c: "subscript r ''code'' = subscript r' ''code''"
  have "refund_classify r = refund_classify r'"
    using c by (rule refund_classify_cong)
  with refund_sent [where gw = gw, OF g1, of w] refund_sent [where gw = gw', OF g2, of w]
  show "refund gw self trans_id w = refund gw' self trans_id w"
    by simp
qed

text \<open>Two answers with code -1 and the same \<open>trans_id\<close>, one with a further field.\<close>

theorem outcome_by_code_only_witness:
  "purchase (\<lambda>_. Some (PDict [(''code'', PInt (- 1)), (''trans_id'', PStr ''abc123''),
                               (''note'', PStr ''first'')]))
     (NextPay_init ''tok'' (PInt 1000) ''http://cb'') ''o1'' [] [] =
   purchase (\<lambda>_. Some (PDict [(''trans_id'', PStr ''abc123''), (''code'', PInt (- 1))]))
     (NextPay_init ''tok'' (PInt 1000) ''http://cb'') ''o1'' [] [] \<and>
   verify (\<lambda>_. Some (PDict [(''code'', PInt (- 1)), (''trans_id'', PStr ''abc123''),
                             (''note'', PStr ''first'')]))
     (NextPay_init ''tok'' (PInt 1000) ''http://cb'') ''abc123'' PNone [] =
   verify (\<lambda>_. Some (PDict [(''trans_id'', PStr ''abc123''), (''code'', PInt (- 1))]))
     (NextPay_init ''tok'' (PInt 1000) ''http://cb'') ''abc123'' PNone [] \<and>
   refund (\<lambda>_. Some (PDict [(''code'', PInt (- 1)), (''trans_id'', PStr ''abc123''),
                             (''note'', PStr ''first'')]))
     (NextPay_init ''tok'' (PInt 1000) ''http://cb'') ''abc123'' [] =
   refund (\<lambda>_. Some (PDict [(''trans_id'', PStr ''abc123''), (''code'', PInt (- 1))]))
     (NextPay_init ''tok'' (PInt 1000) ''http://cb'') ''abc123'' []"
proof -
  let ?c = "NextPay_init ''tok'' (PInt 1000) ''http://cb''"
  let ?d = "[(''api_key'', PStr ''tok''), (''amount'', PInt 1000), (''order_id'', PStr ''o1''),
             (''callback_uri'', PStr ''http://cb'')]"
  let ?r1 = "PDict [(''code'', PInt (- 1)), (''trans_id'', PStr ''abc123''), (''note'', PStr ''first'')]"
  let ?r2 = "PDict [(''trans_id'', PStr ''abc123''), (''code'', PInt (- 1))]"
  have pd: "purchase_data ?c ''o1'' [] = Inr ?d"
    by (simp add: purchase_data_def add_field_def NextPay_init_def)
  have sc: "subscript ?r1 ''code'' = subscript ?r2 ''code''"
    by (simp add: subscript_def)
  have st: "\<forall>code. subscript ?r1 ''code'' = Inr code \<and> py_eq_int code (- 1) \<longrightarrow>
      subscript ?r1 ''trans_id'' = subscript ?r2 ''trans_id''"
    by (simp add: subscript_def)
  note t = outcome_by_code_only [where gw = "\<lambda>_. Some ?r1" and gw' = "\<lambda>_. Some ?r2"
      and r = ?r1 and r' = ?r2 and self = ?c and order_id = "''o1''" and kwargs = "[]"
      and d = ?d and trans_id = "''abc123''" and currency = PNone and w = "[]"]
  have p: "purchase (\<lambda>_. Some ?r1) ?c ''o1'' [] [] = purchase (\<lambda>_. Some ?r2) ?c ''o1'' [] []"
    by (rule t [THEN conjunct1, THEN mp]) (intro conjI pd sc st refl)
  have v: "verify (\<lambda>_. Some ?r1) ?c ''abc123'' PNone [] = verify (\<lambda>_. Some ?r2) ?c ''abc123'' PNone []"
    by (rule t [THEN conjunct2, THEN conjunct1, THEN mp]) (intro conjI sc refl)
  have r: "refund (\<lambda>_. Some ?r1) ?c ''abc123'' [] = refund (\<lambda>_. Some ?r2) ?c ''abc123'' []"
    by (rule t [THEN conjunct2, THEN conjunct2, THEN mp]) (intro conjI sc refl)
  from p v r show ?thesis by (intro conjI)
qed

end
